theory Spec2Isabelle
  imports Complex_Main "HOL-Library.Multiset"
begin

section \<open>Strings\<close>

text \<open>
  A Go string is modelled as its byte sequence (\<open>string\<close>, a \<open>char list\<close>). The functions
  of package \<open>strings\<close> that search bytes (\<open>HasPrefix\<close>, \<open>Index\<close>, \<open>Contains\<close>,
  \<open>Split\<close>) are written out on that representation.

  \<open>strings.ToLower\<close> is not written out: it decodes UTF-8 and maps every Unicode letter, and
  the code is modelled for any such function, which it takes as an argument (the field
  \<open>ToLower\<close> of \<open>Env\<close> and the first argument of \<open>Analyzer_New\<close> below). On a string of
  ASCII bytes \<open>strings.ToLower\<close> maps the letters A to Z and keeps every other byte: that
  function is \<open>asciiToLower\<close>, used only as the value of the argument at sample inputs, whose
  strings are ASCII.
\<close>

definition upperLetters :: string where
  "upperLetters = ''ABCDEFGHIJKLMNOPQRSTUVWXYZ''"

definition lowerLetters :: string where
  "lowerLetters = ''abcdefghijklmnopqrstuvwxyz''"

definition toLowerChar :: "char \<Rightarrow> char" where
  "toLowerChar c = (case map_of (zip upperLetters lowerLetters) c of None \<Rightarrow> c | Some l \<Rightarrow> l)"

definition asciiToLower :: "string \<Rightarrow> string" where
  "asciiToLower s = map toLowerChar s"

fun HasPrefix :: "string \<Rightarrow> string \<Rightarrow> bool" where
  "HasPrefix s [] = True"
| "HasPrefix [] (p # ps) = False"
| "HasPrefix (c # cs) (p # ps) = (c = p \<and> HasPrefix cs ps)"

text \<open>
  \<open>strings.Index\<close>: the offset of the first occurrence, \<open>None\<close> where Go returns \<open>-1\<close>.
\<close>

fun Index :: "string \<Rightarrow> string \<Rightarrow> nat option" where
  "Index [] sub = (if sub = [] then Some 0 else None)"
| "Index (c # cs) sub =
     (if HasPrefix (c # cs) sub then Some 0
      else (case Index cs sub of None \<Rightarrow> None | Some i \<Rightarrow> Some (Suc i)))"

definition Contains :: "string \<Rightarrow> string \<Rightarrow> bool" where
  "Contains s sub = (Index s sub \<noteq> None)"

lemma HasPrefix_length: "HasPrefix s p \<Longrightarrow> length p \<le> length s"
  by (induction s p rule: HasPrefix.induct) auto

lemma Index_bound: "Index s sub = Some i \<Longrightarrow> i + length sub \<le> length s"
proof (induction s arbitrary: i)
  case Nil
  then show ?case by (simp split: if_splits)
next
  case (Cons c cs)
  show ?case
  proof (cases "HasPrefix (c # cs) sub")
    case True
    with Cons.prems HasPrefix_length [OF True] show ?thesis by simp
  next
    case False
    with Cons.prems obtain j where "Index cs sub = Some j" "i = Suc j"
      by (auto split: option.splits)
    with Cons.IH [of j] show ?thesis by simp
  qed
qed

text \<open>
  \<open>strings.Split\<close>: the string is cut at each occurrence of the separator, found from the
  left, the search resuming behind the occurrence. With an empty separator Go cuts the string
  into its UTF-8 sequences, the model into its bytes, which is the same on ASCII strings; the
  repository never splits at an empty separator (no word of its lists is empty).
\<close>

function Split :: "string \<Rightarrow> string \<Rightarrow> string list" where
  "Split s sep =
     (if sep = [] then map (\<lambda>c. [c]) s
      else (case Index s sep of
              None \<Rightarrow> [s]
            | Some m \<Rightarrow> take m s # Split (drop (m + length sep) s) sep))"
  by pat_completeness auto
termination
proof (relation "measure (\<lambda>(s, sep). length s)")
  show "wf (measure (\<lambda>(s, sep). length s))" by simp
next
  fix s sep :: string and m :: nat
  assume "sep \<noteq> []" and "Index s sep = Some m"
  then have "0 < length sep" and "m + length sep \<le> length s"
    using Index_bound by auto
  then have "length s - (m + length sep) < length s"
    by arith
  then show "((drop (m + length sep) s, sep), (s, sep)) \<in> measure (\<lambda>(s, sep). length s)"
    by simp
qed

declare Split.simps [simp del]

text \<open>The repository's helper: \<open>len(strings.Split(text, word)) - 1\<close>.\<close>

definition countOccurrences :: "string \<Rightarrow> string \<Rightarrow> int" where
  "countOccurrences text word = int (length (Split text word)) - 1"

section \<open>Data model (package models)\<close>

record Review =
  ID :: string
  Source :: string
  SourceID :: string
  Content :: string
  Title :: string
  Author :: string
  Rating :: "real option"
  URL :: string
  CreatedAt :: int
  RetrievedAt :: int
  Metadata :: "string \<rightharpoonup> string"

record Entity =
  Text :: string
  Type :: string
  Position :: int

record AnalysisResult =
  ReviewID :: string
  SentimentScore :: real
  IsNegative :: bool
  IsRelevant :: bool
  IntentCategory :: string
  Confidence :: real
  Keywords :: "string list"
  Entities :: "Entity list"
  CategoryScores :: "string \<rightharpoonup> real"

record Department =
  Dept_ID :: string
  Dept_Name :: string
  Dept_ContactInfo :: string
  Dept_Categories :: "string list"

section \<open>Scrape orchestrator (Manager.ScrapeAll)\<close>

text \<open>
  A scraper is an implementation of the interface \<open>Scraper\<close>: its name, whether it is
  enabled, and what its \<open>Scrape\<close> returns in the run at hand, the reviews and the error
  (\<open>None\<close> for \<open>nil\<close>). The error is its message.
\<close>

record Scraper =
  Name :: string
  IsEnabled :: bool
  Scrape :: "Review list \<times> string option"

record Manager =
  scrapers :: "Scraper list"

text \<open>The scrapers for which ScrapeAll starts a goroutine, in the order of the loop.\<close>

definition launched :: "Manager \<Rightarrow> Scraper list" where
  "launched m = filter IsEnabled (scrapers m)"

text \<open>
  The goroutines finish in an order the code does not fix. The scheduler is a function that
  arranges the launched scrapers in the order in which their locked sections run; it is a
  completion order for the manager when it neither drops nor repeats a goroutine. Every
  launched \<open>Scrape\<close> is taken to return, as \<open>wg.Wait\<close> returns only then.
\<close>

definition completion_order :: "(Scraper list \<Rightarrow> Scraper list) \<Rightarrow> Manager \<Rightarrow> bool" where
  "completion_order sched m = (mset (sched (launched m)) = mset (launched m))"

text \<open>
  The locked section of one goroutine, on the shared pair \<open>(results, errs)\<close>:
  \<open>fmt.Errorf("%s scraper error: %w", scraper.Name(), err)\<close> is appended on an error,
  the reviews otherwise.
\<close>

definition record_outcome :: "Review list \<times> string list \<Rightarrow> Scraper \<Rightarrow> Review list \<times> string list" where
  "record_outcome acc s =
     (case snd (Scrape s) of
        Some e \<Rightarrow> (fst acc, snd acc @ [Name s @ '' scraper error: '' @ e])
      | None \<Rightarrow> (fst acc @ fst (Scrape s), snd acc))"

text \<open>
  The loop that combines the errors: the first error, then
  \<open>fmt.Errorf("%v; %w", combinedErr, err)\<close> for each further one.
\<close>

fun combine_errors :: "string option \<Rightarrow> string list \<Rightarrow> string option" where
  "combine_errors combinedErr [] = combinedErr"
| "combine_errors None (e # es) = combine_errors (Some e) es"
| "combine_errors (Some c) (e # es) = combine_errors (Some (c @ ''; '' @ e)) es"

definition ScrapeAll :: "(Scraper list \<Rightarrow> Scraper list) \<Rightarrow> Manager \<Rightarrow> Review list \<times> string option" where
  "ScrapeAll sched m =
     (let (results, errs) = foldl record_outcome ([], []) (sched (launched m))
      in if length results = 0 \<and> length errs > 0
         then ([], combine_errors None errs)
         else (results, None))"

text \<open>Whether a scraper's \<open>Scrape\<close> returned a nil error, and the error recorded for it otherwise.\<close>

definition succeeded :: "Scraper \<Rightarrow> bool" where
  "succeeded s = (snd (Scrape s) = None)"

definition wrapped_error :: "Scraper \<Rightarrow> string" where
  "wrapped_error s =
     Name s @ '' scraper error: '' @ (case snd (Scrape s) of None \<Rightarrow> [] | Some e \<Rightarrow> e)"

section \<open>Routing engine (package router)\<close>

record DepartmentMapping =
  Category :: string
  Department :: string
  Priority :: int

record RouterConfig =
  Mappings :: "DepartmentMapping list"
  DefaultDepartment :: string

text \<open>The struct \<open>Router\<close> without its lock.\<close>

record Router =
  router_config :: RouterConfig
  departments :: "string \<rightharpoonup> Department"
  mappingCache :: "string \<rightharpoonup> string"

definition defaultMappings :: "DepartmentMapping list" where
  "defaultMappings =
     [\<lparr>Category = ''product_issue'', Department = ''engineering'', Priority = 10\<rparr>,
      \<lparr>Category = ''technical_support'', Department = ''support'', Priority = 8\<rparr>,
      \<lparr>Category = ''performance'', Department = ''engineering'', Priority = 8\<rparr>,
      \<lparr>Category = ''security'', Department = ''security'', Priority = 10\<rparr>,
      \<lparr>Category = ''feature_request'', Department = ''product'', Priority = 5\<rparr>,
      \<lparr>Category = ''ui_ux'', Department = ''design'', Priority = 7\<rparr>,
      \<lparr>Category = ''billing_licensing'', Department = ''finance'', Priority = 9\<rparr>,
      \<lparr>Category = ''documentation'', Department = ''documentation'', Priority = 6\<rparr>,
      \<lparr>Category = ''deployment'', Department = ''professional_services'', Priority = 8\<rparr>,
      \<lparr>Category = ''cloud_integration'', Department = ''cloud_team'', Priority = 8\<rparr>,
      \<lparr>Category = ''automation'', Department = ''automation_team'', Priority = 7\<rparr>,
      \<lparr>Category = ''upgrade_issue'', Department = ''engineering'', Priority = 9\<rparr>,
      \<lparr>Category = ''general_complaint'', Department = ''support'', Priority = 6\<rparr>]"

text \<open>The departments that \<open>New\<close> writes into the table, in the order of the assignments.\<close>

definition builtinDepartments :: "Department list" where
  "builtinDepartments =
     [\<lparr>Dept_ID = ''engineering'', Dept_Name = ''Infoblox Engineering'',
       Dept_ContactInfo = ''engineering@infoblox.com'',
       Dept_Categories = [''product_issue'', ''performance'', ''upgrade_issue'']\<rparr>,
      \<lparr>Dept_ID = ''security'', Dept_Name = ''Security Team'',
       Dept_ContactInfo = ''security@infoblox.com'', Dept_Categories = [''security'']\<rparr>,
      \<lparr>Dept_ID = ''product'', Dept_Name = ''Product Management'',
       Dept_ContactInfo = ''product@infoblox.com'', Dept_Categories = [''feature_request'']\<rparr>,
      \<lparr>Dept_ID = ''design'', Dept_Name = ''UX Design'',
       Dept_ContactInfo = ''design@infoblox.com'', Dept_Categories = [''ui_ux'']\<rparr>,
      \<lparr>Dept_ID = ''finance'', Dept_Name = ''Customer Success & Licensing'',
       Dept_ContactInfo = ''licensing@infoblox.com'', Dept_Categories = [''billing_licensing'']\<rparr>,
      \<lparr>Dept_ID = ''support'', Dept_Name = ''Technical Support'',
       Dept_ContactInfo = ''support@infoblox.com'',
       Dept_Categories = [''technical_support'', ''general_complaint'']\<rparr>,
      \<lparr>Dept_ID = ''documentation'', Dept_Name = ''Documentation Team'',
       Dept_ContactInfo = ''docs@infoblox.com'', Dept_Categories = [''documentation'']\<rparr>,
      \<lparr>Dept_ID = ''professional_services'', Dept_Name = ''Professional Services'',
       Dept_ContactInfo = ''services@infoblox.com'', Dept_Categories = [''deployment'']\<rparr>,
      \<lparr>Dept_ID = ''cloud_team'', Dept_Name = ''BloxOne Cloud Team'',
       Dept_ContactInfo = ''cloud@infoblox.com'', Dept_Categories = [''cloud_integration'']\<rparr>,
      \<lparr>Dept_ID = ''automation_team'', Dept_Name = ''Network Automation Team'',
       Dept_ContactInfo = ''automation@infoblox.com'', Dept_Categories = [''automation'']\<rparr>]"

definition Router_New :: "RouterConfig \<Rightarrow> Router" where
  "Router_New cfg0 =
     (let cfg = (if length (Mappings cfg0) = 0 then cfg0\<lparr>Mappings := defaultMappings\<rparr> else cfg0)
      in \<lparr>router_config = cfg,
          departments = foldl (\<lambda>m d. m(Dept_ID d \<mapsto> d)) Map.empty builtinDepartments,
          mappingCache = foldl (\<lambda>m mapping. m(Category mapping \<mapsto> Department mapping))
                           Map.empty (Mappings cfg)\<rparr>)"

text \<open>
  Route first copies the entries of \<open>analysis.CategoryScores\<close> into a slice, in the
  order in which \<open>range\<close> visits the map, and sorts it with \<open>sort.Slice\<close>, which is not
  stable. Neither order is fixed by the code: the sorted slice is an argument of the model,
  and \<open>ranked_scores\<close> says which slices the two steps can produce (every entry once, no
  element followed by one with a greater score).
\<close>

definition ranked_scores :: "AnalysisResult \<Rightarrow> (string \<times> real) list \<Rightarrow> bool" where
  "ranked_scores analysis scores =
     (distinct (map fst scores) \<and> map_of scores = CategoryScores analysis \<and>
      sorted_wrt (\<lambda>a b. \<not> snd b > snd a) scores)"

text \<open>The first step: the department mapped to the intent category, when it exists.\<close>

definition direct_lookup :: "Router \<Rightarrow> string \<Rightarrow> Department option" where
  "direct_lookup r category =
     (case mappingCache r category of
        None \<Rightarrow> None
      | Some departmentID \<Rightarrow> departments r departmentID)"

text \<open>The loop over the sorted slice: the first category with an existing department.\<close>

fun first_mapped :: "Router \<Rightarrow> (string \<times> real) list \<Rightarrow> Department option" where
  "first_mapped r [] = None"
| "first_mapped r (cs # scores) =
     (case direct_lookup r (fst cs) of
        Some dept \<Rightarrow> Some dept
      | None \<Rightarrow> first_mapped r scores)"

definition ultimate_fallback :: Department where
  "ultimate_fallback =
     \<lparr>Dept_ID = ''support'', Dept_Name = ''Customer Support'',
      Dept_ContactInfo = ''support@company.com'', Dept_Categories = [''general_complaint'']\<rparr>"

definition Route :: "Router \<Rightarrow> AnalysisResult \<Rightarrow> (string \<times> real) list \<Rightarrow> Department" where
  "Route r analysis scores =
     (case direct_lookup r (IntentCategory analysis) of
        Some dept \<Rightarrow> dept
      | None \<Rightarrow>
          (case first_mapped r scores of
             Some dept \<Rightarrow> dept
           | None \<Rightarrow>
               (case departments r (DefaultDepartment (router_config r)) of
                  Some dept \<Rightarrow> dept
                | None \<Rightarrow>
                    (case departments r ''support'' of
                       Some dept \<Rightarrow> dept
                     | None \<Rightarrow> ultimate_fallback))))"

definition AddDepartment :: "Router \<Rightarrow> Department \<Rightarrow> Router" where
  "AddDepartment r department =
     r\<lparr>departments := (departments r)(Dept_ID department \<mapsto> department),
       mappingCache := foldl (\<lambda>m category. m(category \<mapsto> Dept_ID department))
                         (mappingCache r) (Dept_Categories department)\<rparr>"

definition UpdateMapping :: "Router \<Rightarrow> string \<Rightarrow> string \<Rightarrow> Router" where
  "UpdateMapping r category departmentID =
     r\<lparr>mappingCache := (mappingCache r)(category \<mapsto> departmentID)\<rparr>"

section \<open>Classification engine (package analyzer)\<close>

record AnalyzerConfig =
  Mode :: string
  ModelEndpoint :: string
  APIKey :: string
  NegativeThreshold :: real
  RelevanceThreshold :: real
  cfg_Keywords :: "string list"
  IntentCategories :: "string list"

text \<open>
  The struct \<open>Analyzer\<close> with the fields that \<open>Analyze\<close> and \<open>analyzeLocal\<close> read or write.
  Left out are the lock, the HTTP client (what it yields is a field of \<open>Env\<close> below) and the
  tables \<open>infobloxTerms\<close> and \<open>productKeywords\<close>, which no function reads. The numbers of
  type \<open>float64\<close> are modelled as reals.
\<close>

record Analyzer =
  config :: AnalyzerConfig
  keywordMap :: "string \<rightharpoonup> bool"
  cache :: "string \<rightharpoonup> AnalysisResult"
  categoryMap :: "string \<rightharpoonup> string"

definition defaultCategories :: "(string \<times> string) list" where
  "defaultCategories =
     [(''bug'', ''bug_report''), (''crash'', ''bug_report''), (''error'', ''bug_report''),
      (''broken'', ''bug_report''), (''freeze'', ''bug_report''), (''slow'', ''performance''),
      (''laggy'', ''performance''), (''hang'', ''performance''), (''feature'', ''feature_request''),
      (''missing'', ''feature_request''), (''wish'', ''feature_request''),
      (''delivery'', ''logistics''), (''shipping'', ''logistics''), (''payment'', ''billing''),
      (''charge'', ''billing''), (''refund'', ''billing''), (''support'', ''customer_service''),
      (''service'', ''customer_service''), (''rude'', ''customer_service''),
      (''interface'', ''ui_ux''), (''confusing'', ''ui_ux''), (''difficult'', ''ui_ux''),
      (''dns'', ''network_services''), (''dhcp'', ''network_services''),
      (''ipam'', ''network_services''), (''ddi'', ''network_services''),
      (''nios'', ''nios_platform''), (''bloxone'', ''bloxone_platform''),
      (''threat'', ''security''), (''secure'', ''security''), (''protection'', ''security''),
      (''ddos'', ''security''), (''cloud'', ''cloud_services''),
      (''automation'', ''network_automation''), (''netmri'', ''network_automation'')]"

text \<open>\<open>New\<close>, given \<open>strings.ToLower\<close> as \<open>toLower\<close>.\<close>

definition Analyzer_New :: "(string \<Rightarrow> string) \<Rightarrow> AnalyzerConfig \<Rightarrow> Analyzer" where
  "Analyzer_New toLower cfg =
     \<lparr>config = cfg,
      keywordMap = foldl (\<lambda>m keyword. m(toLower keyword \<mapsto> True)) Map.empty (cfg_Keywords cfg),
      cache = Map.empty,
      categoryMap = map_of defaultCategories\<rparr>"

definition AnalysisResult_zero :: AnalysisResult where
  "AnalysisResult_zero =
     \<lparr>ReviewID = [], SentimentScore = 0, IsNegative = False, IsRelevant = False,
      IntentCategory = [], Confidence = 0, Keywords = [], Entities = [],
      CategoryScores = Map.empty\<rparr>"

text \<open>
  What the model of one call of \<open>Analyze\<close> takes as given: the library function
  \<open>strings.ToLower\<close>, the order in which \<open>range\<close> visits the keys of \<open>keywordMap\<close> and of
  the category scores, and what the HTTP exchange of \<open>analyzeWithOpenAI\<close> yields, an error
  message or the parsed result.
\<close>

record Env =
  ToLower :: "string \<Rightarrow> string"
  keywordOrder :: "string list"
  categoryOrder :: "string list"
  openaiExchange :: "string + AnalysisResult"

definition map_iteration :: "('k \<rightharpoonup> 'v) \<Rightarrow> 'k list \<Rightarrow> bool" where
  "map_iteration m order = (distinct order \<and> set order = dom m)"

subsection \<open>The local strategy\<close>

definition positiveWords :: "string list" where
  "positiveWords =
     [''good'', ''great'', ''awesome'', ''excellent'', ''amazing'', ''love'', ''best'',
      ''fantastic'', ''perfect'', ''happy'', ''pleased'', ''satisfied'', ''wonderful'',
      ''helpful'', ''thank'', ''thanks'', ''reliable'', ''secure'', ''efficient'', ''intuitive'']"

definition negativeWords :: "string list" where
  "negativeWords =
     [''bad'', ''poor'', ''terrible'', ''awful'', ''horrible'', ''worst'', ''hate'',
      ''disappointed'', ''frustrating'', ''useless'', ''broken'', ''annoying'', ''slow'',
      ''expensive'', ''waste'', ''difficult'', ''confusing'', ''crash'', ''bug'', ''error'',
      ''problem'', ''issue'', ''fail'', ''fails'', ''failed'', ''failing'', ''failure'',
      ''cannot'', ''can'' @ [CHR 0x27] @ ''t'', ''won'' @ [CHR 0x27] @ ''t'',
      ''doesn'' @ [CHR 0x27] @ ''t'', ''didn'' @ [CHR 0x27] @ ''t'',
      ''insecure'', ''vulnerability'', ''breach'', ''outage'', ''downtime'']"

definition infobloxProducts :: "string list" where
  "infobloxProducts =
     [''infoblox'', ''bloxone'', ''nios'', ''ddi'', ''dns firewall'', ''threat defense'',
      ''netmri'', ''ip address management'', ''ipam'', ''dhcp'', ''advanced dns protection'']"

definition productPatterns :: "string list" where
  "productPatterns =
     [''infoblox'', ''bloxone'', ''nios'', ''ddi'', ''dhcp'', ''dns'', ''ipam'', ''netmri'',
      ''threat defense'', ''dns firewall'', ''cloud network automation'']"

definition genericPatterns :: "string list" where
  "genericPatterns =
     [''app'', ''website'', ''service'', ''product'', ''interface'', ''platform'', ''system'']"

text \<open>Lines 213 to 229: the two counts and the score between -1 and 1.\<close>

definition wordCount :: "string list \<Rightarrow> string \<Rightarrow> int" where
  "wordCount wordlist content = foldl (\<lambda>count word. count + countOccurrences content word) 0 wordlist"

definition lexicalScore :: "string \<Rightarrow> real" where
  "lexicalScore content =
     (let positiveCount = wordCount positiveWords content;
          negativeCount = wordCount negativeWords content;
          totalWords = positiveCount + negativeCount
      in if totalWords > 0
         then real_of_int (positiveCount - negativeCount) / real_of_int totalWords
         else 0)"

text \<open>
  \<open>strings.Count(s, "!")\<close>, and the number of matches of the pattern \<open>[A-Z]{3,}\<close>: a match
  takes a whole run of capital letters, so each maximal run of three or more is one match.
\<close>

definition exclamationCount :: "string \<Rightarrow> nat" where
  "exclamationCount s = length (filter (\<lambda>c. c = CHR ''!'') s)"

fun capsRuns :: "string \<Rightarrow> nat \<Rightarrow> nat" where
  "capsRuns [] run = (if run \<ge> 3 then 1 else 0)"
| "capsRuns (c # cs) run =
     (if c \<in> set upperLetters then capsRuns cs (Suc run)
      else (if run \<ge> 3 then 1 else 0) + capsRuns cs 0)"

definition capsCount :: "string \<Rightarrow> nat" where
  "capsCount s = capsRuns s 0"

text \<open>Lines 231 to 251: the adjustment for exclamation marks and capitals.\<close>

definition intensify :: "string \<Rightarrow> real \<Rightarrow> real" where
  "intensify raw sentimentScore =
     (if exclamationCount raw > 2 \<or> capsCount raw > 2
      then (if sentimentScore < 0
            then (if sentimentScore * 1.2 < -1 then -1 else sentimentScore * 1.2)
            else if sentimentScore > 0
            then (if sentimentScore * 1.2 > 1 then 1 else sentimentScore * 1.2)
            else sentimentScore)
      else sentimentScore)"

fun contains :: "string list \<Rightarrow> string \<Rightarrow> bool" where
  "contains [] s = False"
| "contains (item # slice) s = (if item = s then True else contains slice s)"

fun containsEntityWithText :: "Entity list \<Rightarrow> string \<Rightarrow> bool" where
  "containsEntityWithText [] text = False"
| "containsEntityWithText (entity # entities) text =
     (if Text entity = text then True else containsEntityWithText entities text)"

text \<open>Lines 253 to 271: the configured keywords found in the content, then the product names.\<close>

definition matchKeywords :: "Env \<Rightarrow> Analyzer \<Rightarrow> string \<Rightarrow> string list" where
  "matchKeywords env a content =
     foldl (\<lambda>keywords product.
              if Contains content product \<and> \<not> contains keywords product
              then keywords @ [product] else keywords)
       (filter (\<lambda>keyword. keywordMap a keyword \<noteq> None \<and> Contains content keyword)
          (keywordOrder env))
       infobloxProducts"

text \<open>Lines 273 to 294: the score of each category, and the category with the highest score.\<close>

definition scoreCategories :: "Analyzer \<Rightarrow> string list \<Rightarrow> (string \<rightharpoonup> real)" where
  "scoreCategories a keywords =
     foldl (\<lambda>categoryScores keyword.
              case categoryMap a keyword of
                None \<Rightarrow> categoryScores
              | Some category \<Rightarrow>
                  categoryScores(category \<mapsto>
                    (case categoryScores category of None \<Rightarrow> 0 | Some v \<Rightarrow> v) + 1))
       Map.empty keywords"

definition topCategoryOf :: "Env \<Rightarrow> (string \<rightharpoonup> real) \<Rightarrow> string" where
  "topCategoryOf env categoryScores =
     (let top = foldl (\<lambda>(topCategory, topScore) category.
                         case categoryScores category of
                           None \<Rightarrow> (topCategory, topScore)
                         | Some score \<Rightarrow>
                             if score > topScore then (category, score)
                             else (topCategory, topScore))
                  ([], 0) (categoryOrder env)
      in if fst top = [] then ''general_complaint'' else fst top)"

text \<open>Lines 296 to 325: the entities, the generic ones only when no entity has their text.\<close>

definition extractEntities :: "string \<Rightarrow> Entity list" where
  "extractEntities content =
     foldl (\<lambda>entities pattern.
              case Index content pattern of
                None \<Rightarrow> entities
              | Some idx \<Rightarrow>
                  if containsEntityWithText entities pattern then entities
                  else entities @ [\<lparr>Text = pattern, Type = ''PRODUCT'', Position = int idx\<rparr>])
       (foldl (\<lambda>entities pattern.
                 case Index content pattern of
                   None \<Rightarrow> entities
                 | Some idx \<Rightarrow>
                     entities @ [\<lparr>Text = pattern, Type = ''PRODUCT'', Position = int idx\<rparr>])
          [] productPatterns)
       genericPatterns"

text \<open>Lines 327 to 336: the confidence from the number of keywords.\<close>

definition confidenceOf :: "string list \<Rightarrow> real" where
  "confidenceOf keywords =
     (if length keywords > 0
      then (if real (length keywords) / 10 > 1 then 1
            else if real (length keywords) / 10 < 0.3 then 0.3
            else real (length keywords) / 10)
      else 0.5)"

text \<open>Lines 338 to 346: the blend with the star rating, when there is one.\<close>

definition blendRating :: "real option \<Rightarrow> real \<Rightarrow> real" where
  "blendRating rating sentimentScore =
     (case rating of
        None \<Rightarrow> sentimentScore
      | Some stars \<Rightarrow> sentimentScore * 0.6 + ((stars - 3) / 2) * 0.4)"

definition analyzeLocal :: "Env \<Rightarrow> Analyzer \<Rightarrow> Review \<Rightarrow> AnalysisResult \<times> string option" where
  "analyzeLocal env a review =
     (let content = ToLower env (Content review);
          sentimentScore = intensify (Content review) (lexicalScore content);
          keywords = matchKeywords env a content;
          categoryScores = scoreCategories a keywords;
          topCategory = topCategoryOf env categoryScores;
          entities = extractEntities content;
          confidence = confidenceOf keywords;
          sentimentScore = blendRating (Rating review) sentimentScore
      in (\<lparr>ReviewID = [],
           SentimentScore = sentimentScore,
           IsNegative = sentimentScore < 0,
           IsRelevant = length keywords > 0,
           IntentCategory = topCategory,
           Confidence = confidence,
           Keywords = keywords,
           Entities = entities,
           CategoryScores = categoryScores\<rparr>, None))"

subsection \<open>The remote strategies\<close>

definition analyzeWithOpenAI :: "Env \<Rightarrow> Analyzer \<Rightarrow> Review \<Rightarrow> AnalysisResult \<times> string option" where
  "analyzeWithOpenAI env a review =
     (if APIKey (config a) = [] then (AnalysisResult_zero, Some ''OpenAI API key is not configured'')
      else (case openaiExchange env of
              Inl e \<Rightarrow> (AnalysisResult_zero, Some e)
            | Inr analysisResult \<Rightarrow> (analysisResult, None)))"

definition analyzeWithGoogle :: "Review \<Rightarrow> AnalysisResult \<times> string option" where
  "analyzeWithGoogle review = (AnalysisResult_zero, Some ''Google Cloud analysis not implemented'')"

definition analyzeWithAWS :: "Review \<Rightarrow> AnalysisResult \<times> string option" where
  "analyzeWithAWS review = (AnalysisResult_zero, Some ''AWS Comprehend analysis not implemented'')"

definition analyzeWithAzure :: "Review \<Rightarrow> AnalysisResult \<times> string option" where
  "analyzeWithAzure review =
     (AnalysisResult_zero, Some ''Azure Text Analytics analysis not implemented'')"

subsection \<open>Analyze\<close>

datatype Strategy = OpenAI | Google | AWS | Azure | Local

text \<open>The \<open>switch\<close> on the configured mode.\<close>

definition selectStrategy :: "string \<Rightarrow> Strategy" where
  "selectStrategy mode =
     (if mode = ''openai'' then OpenAI
      else if mode = ''google'' then Google
      else if mode = ''aws'' then AWS
      else if mode = ''azure'' then Azure
      else Local)"

fun runStrategy :: "Strategy \<Rightarrow> Env \<Rightarrow> Analyzer \<Rightarrow> Review \<Rightarrow> AnalysisResult \<times> string option" where
  "runStrategy OpenAI env a review = analyzeWithOpenAI env a review"
| "runStrategy Google env a review = analyzeWithGoogle review"
| "runStrategy AWS env a review = analyzeWithAWS review"
| "runStrategy Azure env a review = analyzeWithAzure review"
| "runStrategy Local env a review = analyzeLocal env a review"

text \<open>The cache key \<open>fmt.Sprintf("%x", review.Content)\<close>: two hexadecimal digits for each byte.\<close>

definition hexByte :: "char \<Rightarrow> string" where
  "hexByte c = [''0123456789abcdef'' ! (of_char c div 16), ''0123456789abcdef'' ! (of_char c mod 16)]"

definition cacheKeyOf :: "string \<Rightarrow> string" where
  "cacheKeyOf content = concat (map hexByte content)"

text \<open>
  One call of \<open>Analyze\<close>: the result and the error it returns, the strategy it invoked
  (\<open>None\<close> when it returned from the cache) and the analyzer afterwards.
\<close>

record AnalyzeCall =
  result :: AnalysisResult
  err :: "string option"
  invoked :: "Strategy option"
  analyzer :: Analyzer

definition Analyze :: "Env \<Rightarrow> Analyzer \<Rightarrow> Review \<Rightarrow> AnalyzeCall" where
  "Analyze env a review =
     (let cacheKey = cacheKeyOf (Content review)
      in case cache a cacheKey of
           Some cachedResult \<Rightarrow>
             \<lparr>result = cachedResult, err = None, invoked = None, analyzer = a\<rparr>
         | None \<Rightarrow>
             (let strategy = selectStrategy (Mode (config a));
                  (result0, err0) = runStrategy strategy env a review
              in case err0 of
                   Some e \<Rightarrow>
                     \<lparr>result = AnalysisResult_zero, err = Some e, invoked = Some strategy,
                      analyzer = a\<rparr>
                 | None \<Rightarrow>
                     (let result1 = result0
                            \<lparr>ReviewID := ID review,
                             IsNegative := SentimentScore result0 \<le> NegativeThreshold (config a),
                             IsRelevant := Confidence result0 \<ge> RelevanceThreshold (config a)\<rparr>
                      in \<lparr>result = result1, err = None, invoked = Some strategy,
                          analyzer = a\<lparr>cache := (cache a)(cacheKey \<mapsto> result1)\<rparr>\<rparr>)))"

text \<open>A sequence of calls, each on the analyzer the call before it left.\<close>

fun Analyze_all :: "Analyzer \<Rightarrow> (Env \<times> Review) list \<Rightarrow> Analyzer" where
  "Analyze_all a [] = a"
| "Analyze_all a (call # calls) = Analyze_all (analyzer (Analyze (fst call) a (snd call))) calls"

subsection \<open>The flags and the cache\<close>

text \<open>
  The two flags as functions of the score and the confidence, and the invariant of the cache:
  the configuration is the one given, and every cached result has its flags so.
\<close>

definition flags_ok :: "AnalyzerConfig \<Rightarrow> AnalysisResult \<Rightarrow> bool" where
  "flags_ok cfg res =
     (IsNegative res = (SentimentScore res \<le> NegativeThreshold cfg) \<and>
      IsRelevant res = (Confidence res \<ge> RelevanceThreshold cfg))"

definition cache_ok :: "AnalyzerConfig \<Rightarrow> Analyzer \<Rightarrow> bool" where
  "cache_ok cfg a = (config a = cfg \<and> (\<forall>k res. cache a k = Some res \<longrightarrow> flags_ok cfg res))"

subsection \<open>The lexical sentiment as the specification words it\<close>




section \<open>Sample inputs\<close>

text \<open>
  Shorthands for the concrete inputs at which the theorems below are evaluated: a review with
  an identifier and a content, an analyzer configuration with a mode and an API key, and what
  one call of Analyze takes as given. The strings are ASCII, on which \<open>strings.ToLower\<close> is
  \<open>asciiToLower\<close>.
\<close>

abbreviation review_of :: "string \<Rightarrow> string \<Rightarrow> Review" where
  "review_of i c \<equiv>
     \<lparr>ID = i, Source = ''g2'', SourceID = i, Content = c, Title = [], Author = [],
      Rating = None, URL = [], CreatedAt = 0, RetrievedAt = 0, Metadata = Map.empty\<rparr>"

abbreviation config_of :: "string \<Rightarrow> string \<Rightarrow> AnalyzerConfig" where
  "config_of mode key \<equiv>
     \<lparr>Mode = mode, ModelEndpoint = [], APIKey = key, NegativeThreshold = - (3 / 10),
      RelevanceThreshold = 1 / 2, cfg_Keywords = [''DNS'', ''crash''], IntentCategories = []\<rparr>"

abbreviation env_of :: "string + AnalysisResult \<Rightarrow> Env" where
  "env_of exchange \<equiv>
     \<lparr>ToLower = asciiToLower, keywordOrder = [''crash'', ''dns''],
      categoryOrder = [''network_services'', ''bug_report''], openaiExchange = exchange\<rparr>"

section \<open>Properties of the scrape orchestrator\<close>

lemma record_outcome_cases:
  "record_outcome acc s =
     (if succeeded s then (fst acc @ fst (Scrape s), snd acc)
      else (fst acc, snd acc @ [wrapped_error s]))"
  by (cases "snd (Scrape s)") (simp_all add: record_outcome_def succeeded_def wrapped_error_def)

lemma foldl_record_outcome:
  "foldl record_outcome acc order =
     (fst acc @ concat (map (\<lambda>s. fst (Scrape s)) (filter succeeded order)),
      snd acc @ map wrapped_error (filter (\<lambda>s. \<not> succeeded s) order))"
proof (induction order arbitrary: acc)
  case Nil
  show ?case by simp
next
  case (Cons s order)
  have "foldl record_outcome acc (s # order) = foldl record_outcome (record_outcome acc s) order"
    by simp
  also have "\<dots> =
     (fst (record_outcome acc s) @ concat (map (\<lambda>s. fst (Scrape s)) (filter succeeded order)),
      snd (record_outcome acc s) @ map wrapped_error (filter (\<lambda>s. \<not> succeeded s) order))"
    by (rule Cons.IH)
  also have "\<dots> =
     (fst acc @ concat (map (\<lambda>s. fst (Scrape s)) (filter succeeded (s # order))),
      snd acc @ map wrapped_error (filter (\<lambda>s. \<not> succeeded s) (s # order)))"
    by (simp add: record_outcome_cases)
  finally show ?case .
qed

lemma ScrapeAll_unfold:
  "ScrapeAll sched m =
     (if concat (map (\<lambda>s. fst (Scrape s)) (filter succeeded (sched (launched m)))) = [] \<and>
         filter (\<lambda>s. \<not> succeeded s) (sched (launched m)) \<noteq> []
      then ([], combine_errors None
                  (map wrapped_error (filter (\<lambda>s. \<not> succeeded s) (sched (launched m)))))
      else (concat (map (\<lambda>s. fst (Scrape s)) (filter succeeded (sched (launched m)))), None))"
  by (simp add: ScrapeAll_def foldl_record_outcome)

lemma combine_errors_Some:
  "combine_errors (Some c) es = Some (c @ concat (map (\<lambda>e. ''; '' @ e) es))"
  by (induction es arbitrary: c) simp_all

lemma HasPrefix_append: "HasPrefix (p @ s) p"
  by (induction p) simp_all

lemma HasPrefix_split: "HasPrefix s p \<Longrightarrow> \<exists>b. s = p @ b"
  by (induction s p rule: HasPrefix.induct) auto

lemma Contains_append: "Contains (a @ sub @ b) sub"
proof (induction a)
  case Nil
  show ?case
    using HasPrefix_append [of sub b]
    by (cases "sub @ b") (simp_all add: Contains_def)
next
  case (Cons c a)
  then show ?case
    by (auto simp: Contains_def split: option.splits)
qed

lemma Index_split: "Index s sub = Some i \<Longrightarrow> \<exists>a b. s = a @ sub @ b"
proof (induction s arbitrary: i)
  case Nil
  then show ?case by (simp split: if_splits)
next
  case (Cons c cs)
  show ?case
  proof (cases "HasPrefix (c # cs) sub")
    case True
    from HasPrefix_split [OF this] obtain b where "c # cs = [] @ sub @ b" by auto
    then show ?thesis by blast
  next
    case False
    with Cons.prems obtain j where "Index cs sub = Some j"
      by (auto split: option.splits)
    from Cons.IH [OF this] obtain a b where "cs = a @ sub @ b" by blast
    then have "c # cs = (c # a) @ sub @ b" by simp
    then show ?thesis by blast
  qed
qed

lemma joined_errors_split:
  assumes "e \<in> set es"
  shows "\<exists>a b. c @ concat (map (\<lambda>e. ''; '' @ e) es) = a @ e @ b"
  using assms
proof (induction es arbitrary: c)
  case Nil
  then show ?case by simp
next
  case (Cons x es)
  show ?case
  proof (cases "e = x")
    case True
    have "c @ concat (map (\<lambda>e. ''; '' @ e) (x # es)) =
          (c @ ''; '') @ e @ concat (map (\<lambda>e. ''; '' @ e) es)"
      using True by simp
    then show ?thesis by blast
  next
    case False
    with Cons.prems have "e \<in> set es" by simp
    from Cons.IH [OF this, of "c @ ''; '' @ x"] show ?thesis by simp
  qed
qed

lemma combine_errors_contains:
  assumes "e \<in> set es"
  shows "\<exists>msg. combine_errors None es = Some msg \<and> Contains msg e"
proof (cases es)
  case Nil
  with assms show ?thesis by simp
next
  case (Cons x xs)
  show ?thesis
  proof (cases "e = x")
    case True
    have "Contains ([] @ e @ concat (map (\<lambda>e. ''; '' @ e) xs)) e"
      by (rule Contains_append)
    with True Cons show ?thesis by (simp add: combine_errors_Some)
  next
    case False
    with assms Cons have "e \<in> set xs" by simp
    from joined_errors_split [OF this, of x] obtain a b
      where "x @ concat (map (\<lambda>e. ''; '' @ e) xs) = a @ e @ b" by blast
    with Contains_append [of a e b] Cons show ?thesis
      by (simp add: combine_errors_Some)
  qed
qed

lemma mset_concat_map:
  "mset (concat (map f xs)) = (\<Sum>x\<in>#mset xs. mset (f x))"
  by (induction xs) simp_all

text \<open>
  Claim C1, as amended. When the scrapers that succeed return at least one review between
  them, or when no launched scraper fails, ScrapeAll returns a nil error and exactly the
  reviews of the scrapers that succeeded: their concatenation in the order of completion,
  hence, as a multiset, the union over the successful launched scrapers whatever that order
  is. The errors of the failed scrapers are dropped.
\<close>

theorem ScrapeAll_partial_failure:
  assumes "completion_order sched m"
    and "(\<exists>s\<in>set (launched m). succeeded s \<and> fst (Scrape s) \<noteq> []) \<or>
         (\<forall>s\<in>set (launched m). succeeded s)"
  shows "ScrapeAll sched m =
           (concat (map (\<lambda>s. fst (Scrape s)) (filter succeeded (sched (launched m)))), None) \<and>
         mset (fst (ScrapeAll sched m)) =
           (\<Sum>s\<in>#filter_mset succeeded (mset (launched m)). mset (fst (Scrape s)))"
proof -
  let ?order = "sched (launched m)"
  from assms(1) have perm: "mset ?order = mset (launched m)"
    by (simp add: completion_order_def)
  then have sets: "set ?order = set (launched m)"
    by (rule mset_eq_setD)
  have "concat (map (\<lambda>s. fst (Scrape s)) (filter succeeded ?order)) \<noteq> [] \<or>
        filter (\<lambda>s. \<not> succeeded s) ?order = []"
    using assms(2)
  proof
    assume "\<exists>s\<in>set (launched m). succeeded s \<and> fst (Scrape s) \<noteq> []"
    then obtain s where "s \<in> set ?order" "succeeded s" "fst (Scrape s) \<noteq> []"
      using sets by blast
    then show ?thesis by auto
  next
    assume "\<forall>s\<in>set (launched m). succeeded s"
    then have "filter (\<lambda>s. \<not> succeeded s) ?order = []"
      using sets by (simp add: filter_empty_conv)
    then show ?thesis by simp
  qed
  then have eq: "ScrapeAll sched m =
      (concat (map (\<lambda>s. fst (Scrape s)) (filter succeeded ?order)), None)"
    by (auto simp: ScrapeAll_unfold)
  have "mset (filter succeeded ?order) = filter_mset succeeded (mset ?order)"
    by simp
  then have "mset (filter succeeded ?order) = filter_mset succeeded (mset (launched m))"
    by (simp only: perm)
  then have "mset (fst (ScrapeAll sched m)) =
      (\<Sum>s\<in>#filter_mset succeeded (mset (launched m)). mset (fst (Scrape s)))"
    by (simp add: eq mset_concat_map)
  with eq show ?thesis by simp
qed

text \<open>
  The theorem at a manager with two enabled scrapers, the second of which finishes first and
  fails: the review of the first is returned, with a nil error.
\<close>

theorem ScrapeAll_partial_failure_witness:
  "completion_order rev
     \<lparr>scrapers =
        [\<lparr>Name = ''G2'', IsEnabled = True,
          Scrape = ([review_of ''g2-1'' ''slow''], None)\<rparr>,
         \<lparr>Name = ''Twitter'', IsEnabled = True, Scrape = ([], Some ''timeout'')\<rparr>]\<rparr> \<and>
   ScrapeAll rev
     \<lparr>scrapers =
        [\<lparr>Name = ''G2'', IsEnabled = True,
          Scrape = ([review_of ''g2-1'' ''slow''], None)\<rparr>,
         \<lparr>Name = ''Twitter'', IsEnabled = True, Scrape = ([], Some ''timeout'')\<rparr>]\<rparr>
   = ([review_of ''g2-1'' ''slow''], None)"
  using ScrapeAll_partial_failure
    [of rev "\<lparr>scrapers =
        [\<lparr>Name = ''G2'', IsEnabled = True,
          Scrape = ([review_of ''g2-1'' ''slow''], None)\<rparr>,
         \<lparr>Name = ''Twitter'', IsEnabled = True, Scrape = ([], Some ''timeout'')\<rparr>]\<rparr>"]
  by (simp add: completion_order_def launched_def succeeded_def)

text \<open>
  Claim C1 as stated fails: one enabled scraper succeeds with zero reviews, the other fails,
  and ScrapeAll returns the error of the failed one instead of a nil error.
\<close>

theorem ScrapeAll_empty_success_counterexample:
  "ScrapeAll (\<lambda>order. order)
     \<lparr>scrapers = [\<lparr>Name = ''Reddit'', IsEnabled = True, Scrape = ([], None)\<rparr>,
                  \<lparr>Name = ''Twitter'', IsEnabled = True, Scrape = ([], Some ''timeout'')\<rparr>]\<rparr>
   = ([], Some ''Twitter scraper error: timeout'')"
  by (simp add: ScrapeAll_def launched_def record_outcome_def)

text \<open>
  Claim C6, as amended. When at least one scraper is launched and every launched scraper
  fails, ScrapeAll returns no review and one error, whose message contains the message of
  every scraper's failure (and the line recorded for it, which names the scraper), whatever
  the order of completion.
\<close>

theorem ScrapeAll_total_failure:
  assumes "completion_order sched m"
    and "launched m \<noteq> []"
    and "\<forall>s\<in>set (launched m). snd (Scrape s) \<noteq> None"
  shows "fst (ScrapeAll sched m) = [] \<and>
         (\<exists>msg. snd (ScrapeAll sched m) = Some msg \<and>
            (\<forall>s\<in>set (launched m). \<forall>e. snd (Scrape s) = Some e \<longrightarrow>
               Contains msg e \<and> Contains msg (Name s @ '' scraper error: '' @ e)))"
proof -
  let ?order = "sched (launched m)"
  from assms(1) have perm: "mset ?order = mset (launched m)"
    by (simp add: completion_order_def)
  then have sets: "set ?order = set (launched m)"
    by (rule mset_eq_setD)
  from assms(2) perm have ne: "?order \<noteq> []" by auto
  have failed: "\<forall>s\<in>set ?order. \<not> succeeded s"
    using assms(3) sets by (simp add: succeeded_def)
  then have all: "filter (\<lambda>s. \<not> succeeded s) ?order = ?order"
    and none: "filter succeeded ?order = []"
    by (simp_all add: filter_empty_conv)
  have eq: "ScrapeAll sched m = ([], combine_errors None (map wrapped_error ?order))"
    using ne by (simp add: ScrapeAll_unfold all none)
  from ne obtain s0 where "s0 \<in> set ?order" by (cases ?order) auto
  then have "wrapped_error s0 \<in> set (map wrapped_error ?order)" by simp
  from combine_errors_contains [OF this] obtain msg
    where msg: "combine_errors None (map wrapped_error ?order) = Some msg" by blast
  have "Contains msg e \<and> Contains msg (Name s @ '' scraper error: '' @ e)"
    if "s \<in> set (launched m)" and "snd (Scrape s) = Some e" for s e
  proof -
    from that have w: "wrapped_error s = Name s @ '' scraper error: '' @ e"
      by (simp add: wrapped_error_def)
    from that sets have "wrapped_error s \<in> set (map wrapped_error ?order)" by simp
    from combine_errors_contains [OF this] msg have c: "Contains msg (wrapped_error s)"
      by simp
    then obtain i where "Index msg (wrapped_error s) = Some i"
      by (auto simp: Contains_def)
    from Index_split [OF this] obtain a b where "msg = a @ wrapped_error s @ b" by blast
    then have "msg = (a @ Name s @ '' scraper error: '') @ e @ b"
      by (simp add: w)
    then have "Contains msg e"
      using Contains_append [of "a @ Name s @ '' scraper error: ''" e b] by simp
    with c w show ?thesis by simp
  qed
  with eq msg show ?thesis by simp
qed

text \<open>
  The theorem at a manager whose two enabled scrapers fail: the error names both failures.
\<close>

theorem ScrapeAll_total_failure_witness:
  "completion_order rev
     \<lparr>scrapers = [\<lparr>Name = ''Reddit'', IsEnabled = True, Scrape = ([], Some ''HTTP 503'')\<rparr>,
                  \<lparr>Name = ''Twitter'', IsEnabled = True, Scrape = ([], Some ''timeout'')\<rparr>]\<rparr> \<and>
   ScrapeAll rev
     \<lparr>scrapers = [\<lparr>Name = ''Reddit'', IsEnabled = True, Scrape = ([], Some ''HTTP 503'')\<rparr>,
                  \<lparr>Name = ''Twitter'', IsEnabled = True, Scrape = ([], Some ''timeout'')\<rparr>]\<rparr>
   = ([], Some ''Twitter scraper error: timeout; Reddit scraper error: HTTP 503'') \<and>
   Contains ''Twitter scraper error: timeout; Reddit scraper error: HTTP 503'' ''HTTP 503'' \<and>
   Contains ''Twitter scraper error: timeout; Reddit scraper error: HTTP 503'' ''timeout''"
  using ScrapeAll_total_failure
    [of rev "\<lparr>scrapers = [\<lparr>Name = ''Reddit'', IsEnabled = True, Scrape = ([], Some ''HTTP 503'')\<rparr>,
                  \<lparr>Name = ''Twitter'', IsEnabled = True, Scrape = ([], Some ''timeout'')\<rparr>]\<rparr>"]
  by (simp add: completion_order_def launched_def ScrapeAll_def record_outcome_def)

text \<open>
  Claim C6 as stated fails where no scraper is enabled, as in a manager built from a
  configuration that enables none: every enabled scraper fails, there being none, and
  ScrapeAll returns a nil error.
\<close>

theorem ScrapeAll_no_scraper_counterexample:
  "ScrapeAll (\<lambda>order. order) \<lparr>scrapers = []\<rparr> = ([], None)"
  by (simp add: ScrapeAll_def launched_def)

section \<open>Properties of the routing engine\<close>

lemma Router_New_config:
  "DefaultDepartment (router_config (Router_New cfg)) = DefaultDepartment cfg"
  by (simp add: Router_New_def)

lemma Router_New_departments:
  "departments (Router_New cfg) = foldl (\<lambda>m d. m(Dept_ID d \<mapsto> d)) Map.empty builtinDepartments"
  by (simp add: Router_New_def Let_def)

lemma builtin_department_ID:
  assumes "departments (Router_New cfg) k = Some d"
  shows "Dept_ID d = k \<and> k \<noteq> []"
  using assms
  by (auto simp: Router_New_departments builtinDepartments_def split: if_splits)

lemma builtin_support:
  "departments (Router_New cfg) ''support'' =
     Some \<lparr>Dept_ID = ''support'', Dept_Name = ''Technical Support'',
           Dept_ContactInfo = ''support@infoblox.com'',
           Dept_Categories = [''technical_support'', ''general_complaint'']\<rparr>"
  by (simp add: Router_New_departments builtinDepartments_def)

lemma direct_lookup_registered:
  "direct_lookup r category = Some d \<Longrightarrow> \<exists>k. departments r k = Some d"
  by (auto simp: direct_lookup_def split: option.splits)

lemma first_mapped_registered:
  "first_mapped r scores = Some d \<Longrightarrow> \<exists>k. departments r k = Some d"
  by (induction scores) (auto split: option.splits dest: direct_lookup_registered)

lemma Route_cases:
  "(\<exists>k. departments r k = Some (Route r analysis scores)) \<or>
   Route r analysis scores = ultimate_fallback"
  by (auto simp: Route_def split: option.splits
           dest: direct_lookup_registered first_mapped_registered)

text \<open>
  The table that \<open>New\<close> builds holds no department with an empty identifier, and the two
  mutators keep it so, \<open>AddDepartment\<close> provided the department it is given has an
  identifier (it does not check).
\<close>

lemma Router_New_registered:
  "\<forall>k d. departments (Router_New cfg) k = Some d \<longrightarrow> Dept_ID d \<noteq> []"
  using builtin_department_ID by blast

lemma UpdateMapping_registered:
  assumes "\<forall>k d. departments r k = Some d \<longrightarrow> Dept_ID d \<noteq> []"
  shows "\<forall>k d. departments (UpdateMapping r category departmentID) k = Some d \<longrightarrow> Dept_ID d \<noteq> []"
  using assms by (simp add: UpdateMapping_def)

lemma AddDepartment_registered:
  assumes "\<forall>k d. departments r k = Some d \<longrightarrow> Dept_ID d \<noteq> []"
    and "Dept_ID department \<noteq> []"
  shows "\<forall>k d. departments (AddDepartment r department) k = Some d \<longrightarrow> Dept_ID d \<noteq> []"
  using assms by (auto simp: AddDepartment_def)

text \<open>
  Claim C2, as amended. Route is a total function into \<open>Department\<close>: it has no error result.
  For every analysis result and every sorted slice of its category scores, the department
  returned has a non-empty identifier on every router whose table holds no department with an
  empty identifier, and so on every router that \<open>New\<close> builds, from any configuration.
  When the direct lookup, the ranked categories and the configured default department all
  fail, Route returns the department registered under \<open>support\<close>, and the department written
  out in its last statement when none is registered; on a router built by \<open>New\<close> that is the
  support department that \<open>New\<close> writes into its table.
\<close>

theorem Route_total:
  "((\<forall>k d. departments r k = Some d \<longrightarrow> Dept_ID d \<noteq> []) \<longrightarrow>
      Dept_ID (Route r analysis scores) \<noteq> []) \<and>
   Dept_ID (Route (Router_New cfg) analysis scores) \<noteq> [] \<and>
   (direct_lookup r (IntentCategory analysis) = None \<and>
    first_mapped r scores = None \<and>
    departments r (DefaultDepartment (router_config r)) = None \<longrightarrow>
      Route r analysis scores =
        (case departments r ''support'' of Some dept \<Rightarrow> dept | None \<Rightarrow> ultimate_fallback)) \<and>
   (direct_lookup (Router_New cfg) (IntentCategory analysis) = None \<and>
    first_mapped (Router_New cfg) scores = None \<and>
    departments (Router_New cfg) (DefaultDepartment cfg) = None \<longrightarrow>
      Route (Router_New cfg) analysis scores =
        \<lparr>Dept_ID = ''support'', Dept_Name = ''Technical Support'',
         Dept_ContactInfo = ''support@infoblox.com'',
         Dept_Categories = [''technical_support'', ''general_complaint'']\<rparr>)"
proof (intro conjI impI)
  assume registered: "\<forall>k d. departments r k = Some d \<longrightarrow> Dept_ID d \<noteq> []"
  show "Dept_ID (Route r analysis scores) \<noteq> []"
    using Route_cases [of r analysis scores]
  proof
    assume "\<exists>k. departments r k = Some (Route r analysis scores)"
    with registered show ?thesis by blast
  next
    assume "Route r analysis scores = ultimate_fallback"
    then show ?thesis by (simp add: ultimate_fallback_def)
  qed
next
  show "Dept_ID (Route (Router_New cfg) analysis scores) \<noteq> []"
    using Route_cases [of "Router_New cfg" analysis scores]
  proof
    assume "\<exists>k. departments (Router_New cfg) k = Some (Route (Router_New cfg) analysis scores)"
    then show ?thesis using builtin_department_ID by blast
  next
    assume "Route (Router_New cfg) analysis scores = ultimate_fallback"
    then show ?thesis by (simp add: ultimate_fallback_def)
  qed
next
  assume "direct_lookup r (IntentCategory analysis) = None \<and>
    first_mapped r scores = None \<and>
    departments r (DefaultDepartment (router_config r)) = None"
  then show "Route r analysis scores =
      (case departments r ''support'' of Some dept \<Rightarrow> dept | None \<Rightarrow> ultimate_fallback)"
    by (simp add: Route_def)
next
  assume "direct_lookup (Router_New cfg) (IntentCategory analysis) = None \<and>
    first_mapped (Router_New cfg) scores = None \<and>
    departments (Router_New cfg) (DefaultDepartment cfg) = None"
  then show "Route (Router_New cfg) analysis scores =
        \<lparr>Dept_ID = ''support'', Dept_Name = ''Technical Support'',
         Dept_ContactInfo = ''support@infoblox.com'',
         Dept_Categories = [''technical_support'', ''general_complaint'']\<rparr>"
    by (simp add: Route_def Router_New_config builtin_support)
qed

text \<open>
  The theorem at an analysis result with an unknown intent category and no category scores,
  on the router built from a configuration whose default department does not exist, after
  one call of \<open>UpdateMapping\<close>: every department of the table has an identifier, the three
  steps fail, and the support department of the table is returned.
\<close>

theorem Route_total_witness:
  "Route (UpdateMapping
            (Router_New \<lparr>Mappings = [\<lparr>Category = ''billing'', Department = ''billing_team'',
                                       Priority = 9\<rparr>],
                         DefaultDepartment = ''escalations''\<rparr>)
            ''outage'' ''sre_team'')
     \<lparr>ReviewID = ''r1'', SentimentScore = - 1, IsNegative = True, IsRelevant = True,
      IntentCategory = ''unknown'', Confidence = 1, Keywords = [], Entities = [],
      CategoryScores = Map.empty\<rparr> []
   = \<lparr>Dept_ID = ''support'', Dept_Name = ''Technical Support'',
      Dept_ContactInfo = ''support@infoblox.com'',
      Dept_Categories = [''technical_support'', ''general_complaint'']\<rparr> \<and>
   Dept_ID (Route (UpdateMapping
            (Router_New \<lparr>Mappings = [\<lparr>Category = ''billing'', Department = ''billing_team'',
                                       Priority = 9\<rparr>],
                         DefaultDepartment = ''escalations''\<rparr>)
            ''outage'' ''sre_team'')
     \<lparr>ReviewID = ''r1'', SentimentScore = - 1, IsNegative = True, IsRelevant = True,
      IntentCategory = ''unknown'', Confidence = 1, Keywords = [], Entities = [],
      CategoryScores = Map.empty\<rparr> []) \<noteq> [] \<and>
   Route (Router_New \<lparr>Mappings = [\<lparr>Category = ''billing'', Department = ''billing_team'',
                                    Priority = 9\<rparr>],
                      DefaultDepartment = ''escalations''\<rparr>)
     \<lparr>ReviewID = ''r1'', SentimentScore = - 1, IsNegative = True, IsRelevant = True,
      IntentCategory = ''unknown'', Confidence = 1, Keywords = [], Entities = [],
      CategoryScores = Map.empty\<rparr> []
   = \<lparr>Dept_ID = ''support'', Dept_Name = ''Technical Support'',
      Dept_ContactInfo = ''support@infoblox.com'',
      Dept_Categories = [''technical_support'', ''general_complaint'']\<rparr>"
proof -
  let ?cfg = "\<lparr>Mappings = [\<lparr>Category = ''billing'', Department = ''billing_team'',
                             Priority = 9\<rparr>],
               DefaultDepartment = ''escalations''\<rparr>"
  let ?analysis = "\<lparr>ReviewID = ''r1'', SentimentScore = - 1, IsNegative = True,
                    IsRelevant = True, IntentCategory = ''unknown'', Confidence = 1,
                    Keywords = [], Entities = [], CategoryScores = Map.empty\<rparr>"
  let ?r = "UpdateMapping (Router_New ?cfg) ''outage'' ''sre_team''"
  have registered: "\<forall>k d. departments ?r k = Some d \<longrightarrow> Dept_ID d \<noteq> []"
    by (rule UpdateMapping_registered) (rule Router_New_registered)
  have updated:
    "direct_lookup ?r (IntentCategory ?analysis) = None \<and>
     first_mapped ?r [] = None \<and>
     departments ?r (DefaultDepartment (router_config ?r)) = None"
    by (simp add: direct_lookup_def UpdateMapping_def Router_New_def builtinDepartments_def)
  have support: "departments ?r ''support'' =
      Some \<lparr>Dept_ID = ''support'', Dept_Name = ''Technical Support'',
            Dept_ContactInfo = ''support@infoblox.com'',
            Dept_Categories = [''technical_support'', ''general_complaint'']\<rparr>"
    using builtin_support [of ?cfg] by (simp add: UpdateMapping_def)
  have configured:
    "direct_lookup (Router_New ?cfg) (IntentCategory ?analysis) = None \<and>
     first_mapped (Router_New ?cfg) [] = None \<and>
     departments (Router_New ?cfg) (DefaultDepartment ?cfg) = None"
    by (simp add: direct_lookup_def Router_New_def builtinDepartments_def)
  note total = Route_total [of ?r ?analysis "[]" ?cfg]
  from total registered have "Dept_ID (Route ?r ?analysis []) \<noteq> []"
    by blast
  moreover from total updated have "Route ?r ?analysis [] =
      (case departments ?r ''support'' of Some dept \<Rightarrow> dept | None \<Rightarrow> ultimate_fallback)"
    by blast
  moreover from total configured have "Route (Router_New ?cfg) ?analysis [] =
      \<lparr>Dept_ID = ''support'', Dept_Name = ''Technical Support'',
       Dept_ContactInfo = ''support@infoblox.com'',
       Dept_Categories = [''technical_support'', ''general_complaint'']\<rparr>"
    by blast
  ultimately show ?thesis
    by (simp only: support option.case) simp
qed

text \<open>
  Claim C2 as stated fails after \<open>AddDepartment\<close>, which stores the department it is given
  under its identifier without a check. When a department with an empty identifier has been
  added and no default department is configured, the lookup of the default department finds
  it, and Route returns a department whose identifier is empty. And when a department has
  been added under \<open>support\<close>, the last lookup returns that one, not a hard-coded department.
\<close>

theorem Route_added_department_counterexample:
  "Dept_ID (Route (AddDepartment (Router_New \<lparr>Mappings = [], DefaultDepartment = []\<rparr>)
                     \<lparr>Dept_ID = [], Dept_Name = ''Triage'',
                      Dept_ContactInfo = ''triage@infoblox.com'', Dept_Categories = []\<rparr>)
     \<lparr>ReviewID = ''r1'', SentimentScore = - 1, IsNegative = True, IsRelevant = True,
      IntentCategory = ''unknown'', Confidence = 1, Keywords = [], Entities = [],
      CategoryScores = Map.empty\<rparr> []) = [] \<and>
   Route (AddDepartment (Router_New \<lparr>Mappings = [], DefaultDepartment = ''escalations''\<rparr>)
            \<lparr>Dept_ID = ''support'', Dept_Name = ''Field Support'',
             Dept_ContactInfo = ''field@partner.example'', Dept_Categories = []\<rparr>)
     \<lparr>ReviewID = ''r1'', SentimentScore = - 1, IsNegative = True, IsRelevant = True,
      IntentCategory = ''unknown'', Confidence = 1, Keywords = [], Entities = [],
      CategoryScores = Map.empty\<rparr> []
   = \<lparr>Dept_ID = ''support'', Dept_Name = ''Field Support'',
      Dept_ContactInfo = ''field@partner.example'', Dept_Categories = []\<rparr>"
  by (simp add: Route_def direct_lookup_def AddDepartment_def Router_New_def
        builtinDepartments_def defaultMappings_def)

text \<open>
  Claim C7. When the mapping table has an entry for the intent category of the analysis
  result, and the department it names exists, Route returns that department, whatever the
  category scores and whatever slice they were sorted into.
\<close>

theorem Route_direct:
  assumes "mappingCache r (IntentCategory analysis) = Some departmentID"
    and "departments r departmentID = Some dept"
  shows "Route r analysis scores = dept"
  using assms by (simp add: Route_def direct_lookup_def)

text \<open>
  The theorem at a router to which a department \<open>security_team\<close> owning the category
  \<open>security\<close> was added, and an analysis result whose category scores point elsewhere.
\<close>

theorem Route_direct_witness:
  "ranked_scores
     \<lparr>ReviewID = ''r1'', SentimentScore = - 1, IsNegative = True, IsRelevant = True,
      IntentCategory = ''security'', Confidence = 1, Keywords = [], Entities = [],
      CategoryScores = map_of [(''feature_request'', 9), (''ui_ux'', 2)]\<rparr>
     [(''feature_request'', 9), (''ui_ux'', 2)] \<and>
   Route (AddDepartment (Router_New \<lparr>Mappings = [], DefaultDepartment = ''support''\<rparr>)
            \<lparr>Dept_ID = ''security_team'', Dept_Name = ''Security Response'',
             Dept_ContactInfo = ''secteam@infoblox.com'', Dept_Categories = [''security'']\<rparr>)
     \<lparr>ReviewID = ''r1'', SentimentScore = - 1, IsNegative = True, IsRelevant = True,
      IntentCategory = ''security'', Confidence = 1, Keywords = [], Entities = [],
      CategoryScores = map_of [(''feature_request'', 9), (''ui_ux'', 2)]\<rparr>
     [(''feature_request'', 9), (''ui_ux'', 2)]
   = \<lparr>Dept_ID = ''security_team'', Dept_Name = ''Security Response'',
      Dept_ContactInfo = ''secteam@infoblox.com'', Dept_Categories = [''security'']\<rparr>"
  using Route_direct
    [of "AddDepartment (Router_New \<lparr>Mappings = [], DefaultDepartment = ''support''\<rparr>)
            \<lparr>Dept_ID = ''security_team'', Dept_Name = ''Security Response'',
             Dept_ContactInfo = ''secteam@infoblox.com'', Dept_Categories = [''security'']\<rparr>"
        "\<lparr>ReviewID = ''r1'', SentimentScore = - 1, IsNegative = True, IsRelevant = True,
          IntentCategory = ''security'', Confidence = 1, Keywords = [], Entities = [],
          CategoryScores = map_of [(''feature_request'', 9), (''ui_ux'', 2)]\<rparr>"
        "''security_team''"
        "\<lparr>Dept_ID = ''security_team'', Dept_Name = ''Security Response'',
          Dept_ContactInfo = ''secteam@infoblox.com'', Dept_Categories = [''security'']\<rparr>"
        "[(''feature_request'', 9), (''ui_ux'', 2)]"]
  by (simp add: AddDepartment_def Router_New_def ranked_scores_def)

section \<open>Properties of Analyze\<close>

lemma Analyze_hit:
  assumes "cache a (cacheKeyOf (Content review)) = Some cachedResult"
  shows "Analyze env a review =
           \<lparr>result = cachedResult, err = None, invoked = None, analyzer = a\<rparr>"
  using assms by (simp add: Analyze_def)

lemma Analyze_miss_error:
  assumes "cache a (cacheKeyOf (Content review)) = None"
    and "snd (runStrategy (selectStrategy (Mode (config a))) env a review) = Some e"
  shows "Analyze env a review =
           \<lparr>result = AnalysisResult_zero, err = Some e,
            invoked = Some (selectStrategy (Mode (config a))), analyzer = a\<rparr>"
  using assms by (cases "runStrategy (selectStrategy (Mode (config a))) env a review")
    (simp add: Analyze_def Let_def)

lemma Analyze_miss_ok:
  assumes "cache a (cacheKeyOf (Content review)) = None"
    and "runStrategy (selectStrategy (Mode (config a))) env a review = (result0, None)"
  shows "Analyze env a review =
           \<lparr>result = result0
              \<lparr>ReviewID := ID review,
               IsNegative := SentimentScore result0 \<le> NegativeThreshold (config a),
               IsRelevant := Confidence result0 \<ge> RelevanceThreshold (config a)\<rparr>,
            err = None,
            invoked = Some (selectStrategy (Mode (config a))),
            analyzer = a\<lparr>cache := (cache a)(cacheKeyOf (Content review) \<mapsto>
              result0
                \<lparr>ReviewID := ID review,
                 IsNegative := SentimentScore result0 \<le> NegativeThreshold (config a),
                 IsRelevant := Confidence result0 \<ge> RelevanceThreshold (config a)\<rparr>)\<rparr>\<rparr>"
  using assms by (simp add: Analyze_def Let_def)

text \<open>The three ways in which a call of Analyze ends.\<close>

lemma Analyze_cases:
  obtains
    (hit) cachedResult where "cache a (cacheKeyOf (Content review)) = Some cachedResult"
      "Analyze env a review = \<lparr>result = cachedResult, err = None, invoked = None, analyzer = a\<rparr>"
  | (error) e where "cache a (cacheKeyOf (Content review)) = None"
      "snd (runStrategy (selectStrategy (Mode (config a))) env a review) = Some e"
      "Analyze env a review =
         \<lparr>result = AnalysisResult_zero, err = Some e,
          invoked = Some (selectStrategy (Mode (config a))), analyzer = a\<rparr>"
  | (fresh) result0 where "cache a (cacheKeyOf (Content review)) = None"
      "runStrategy (selectStrategy (Mode (config a))) env a review = (result0, None)"
      "Analyze env a review =
         \<lparr>result = result0
            \<lparr>ReviewID := ID review,
             IsNegative := SentimentScore result0 \<le> NegativeThreshold (config a),
             IsRelevant := Confidence result0 \<ge> RelevanceThreshold (config a)\<rparr>,
          err = None,
          invoked = Some (selectStrategy (Mode (config a))),
          analyzer = a\<lparr>cache := (cache a)(cacheKeyOf (Content review) \<mapsto>
            result0
              \<lparr>ReviewID := ID review,
               IsNegative := SentimentScore result0 \<le> NegativeThreshold (config a),
               IsRelevant := Confidence result0 \<ge> RelevanceThreshold (config a)\<rparr>)\<rparr>\<rparr>"
proof (cases "cache a (cacheKeyOf (Content review))")
  case (Some cachedResult)
  with Analyze_hit [OF Some] hit show ?thesis by blast
next
  case None
  obtain result0 err0
    where run: "runStrategy (selectStrategy (Mode (config a))) env a review = (result0, err0)"
    by (cases "runStrategy (selectStrategy (Mode (config a))) env a review")
  show ?thesis
  proof (cases err0)
    case miss: None
    from Analyze_miss_ok [OF None run [unfolded miss]] fresh None run miss show ?thesis
      by blast
  next
    case (Some e)
    with run have "snd (runStrategy (selectStrategy (Mode (config a))) env a review) = Some e"
      by simp
    from Analyze_miss_error [OF None this] error None this show ?thesis by blast
  qed
qed

lemma analyzeLocal_no_error: "snd (analyzeLocal env a review) = None"
  by (simp add: analyzeLocal_def Let_def)

lemma Analyze_local_fresh:
  assumes "cache a (cacheKeyOf (Content review)) = None"
    and "selectStrategy (Mode (config a)) = Local"
  shows "err (Analyze env a review) = None \<and>
         invoked (Analyze env a review) = Some Local \<and>
         ReviewID (result (Analyze env a review)) = ID review \<and>
         cache (analyzer (Analyze env a review)) =
           (cache a)(cacheKeyOf (Content review) \<mapsto> result (Analyze env a review)) \<and>
         config (analyzer (Analyze env a review)) = config a"
proof -
  have "runStrategy (selectStrategy (Mode (config a))) env a review =
          (fst (analyzeLocal env a review), None)"
    using analyzeLocal_no_error [of env a review] assms(2)
    by (simp add: prod_eq_iff)
  from Analyze_miss_ok [OF assms(1) this] assms(2) show ?thesis by simp
qed

lemma cache_ok_New: "cache_ok cfg (Analyzer_New toLower cfg)"
  by (simp add: cache_ok_def Analyzer_New_def)

lemma cache_ok_Analyze:
  assumes "cache_ok cfg a"
  shows "cache_ok cfg (analyzer (Analyze env a review))"
proof (cases rule: Analyze_cases [of a review env])
  case (hit cachedResult)
  with assms show ?thesis by simp
next
  case (error e)
  with assms show ?thesis by simp
next
  case (fresh result0)
  with assms show ?thesis
    by (auto simp: cache_ok_def flags_ok_def)
qed

lemma cache_ok_Analyze_all:
  "cache_ok cfg a \<Longrightarrow> cache_ok cfg (Analyze_all a calls)"
  by (induction calls arbitrary: a) (simp_all add: cache_ok_Analyze)

lemma Analyze_flags_ok:
  assumes "cache_ok cfg a" and "err (Analyze env a review) = None"
  shows "flags_ok cfg (result (Analyze env a review))"
proof (cases rule: Analyze_cases [of a review env])
  case (hit cachedResult)
  with assms show ?thesis by (simp add: cache_ok_def)
next
  case (error e)
  with assms show ?thesis by simp
next
  case (fresh result0)
  with assms show ?thesis by (simp add: cache_ok_def flags_ok_def)
qed

text \<open>
  Claim C3. Start from the analyzer that \<open>New\<close> builds from any configuration, hence any
  pair of thresholds (and with any function for \<open>strings.ToLower\<close>), and let any sequence of calls of Analyze run on it, with any strategy
  outcomes. Whenever a further call returns a result (a nil error), freshly computed or served
  from the cache, its flag \<open>IsNegative\<close> is \<open>SentimentScore \<le> NegativeThreshold\<close> and its
  flag \<open>IsRelevant\<close> is \<open>Confidence \<ge> RelevanceThreshold\<close>, whatever flags the strategy
  itself had set.
\<close>

theorem Analyze_flags:
  assumes "err (Analyze env (Analyze_all (Analyzer_New toLower cfg) calls) review) = None"
  shows "IsNegative (result (Analyze env (Analyze_all (Analyzer_New toLower cfg) calls) review)) =
           (SentimentScore (result (Analyze env (Analyze_all (Analyzer_New toLower cfg) calls) review))
              \<le> NegativeThreshold cfg) \<and>
         IsRelevant (result (Analyze env (Analyze_all (Analyzer_New toLower cfg) calls) review)) =
           (Confidence (result (Analyze env (Analyze_all (Analyzer_New toLower cfg) calls) review))
              \<ge> RelevanceThreshold cfg)"
proof -
  have "cache_ok cfg (Analyze_all (Analyzer_New toLower cfg) calls)"
    by (rule cache_ok_Analyze_all) (rule cache_ok_New)
  from Analyze_flags_ok [OF this assms] show ?thesis
    by (simp add: flags_ok_def)
qed

text \<open>
  The theorem at a remote strategy that answers with both flags false, a score below and a
  confidence above the thresholds: the first call stores the result with both flags true, and
  the second call, on a review of equal content, returns it from the cache.
\<close>

theorem Analyze_flags_witness:
  "err (Analyze
          (env_of (Inr \<lparr>ReviewID = [], SentimentScore = - (9 / 10), IsNegative = False,
                        IsRelevant = False, IntentCategory = ''security'', Confidence = 9 / 10,
                        Keywords = [], Entities = [], CategoryScores = Map.empty\<rparr>))
          (Analyze_all (Analyzer_New asciiToLower (config_of ''openai'' ''sk-1''))
             [(env_of (Inr \<lparr>ReviewID = [], SentimentScore = - (9 / 10), IsNegative = False,
                        IsRelevant = False, IntentCategory = ''security'', Confidence = 9 / 10,
                        Keywords = [], Entities = [], CategoryScores = Map.empty\<rparr>),
               review_of ''a'' ''breach'')])
          (review_of ''b'' ''breach'')) = None \<and>
   IsNegative (result (Analyze
          (env_of (Inr \<lparr>ReviewID = [], SentimentScore = - (9 / 10), IsNegative = False,
                        IsRelevant = False, IntentCategory = ''security'', Confidence = 9 / 10,
                        Keywords = [], Entities = [], CategoryScores = Map.empty\<rparr>))
          (Analyze_all (Analyzer_New asciiToLower (config_of ''openai'' ''sk-1''))
             [(env_of (Inr \<lparr>ReviewID = [], SentimentScore = - (9 / 10), IsNegative = False,
                        IsRelevant = False, IntentCategory = ''security'', Confidence = 9 / 10,
                        Keywords = [], Entities = [], CategoryScores = Map.empty\<rparr>),
               review_of ''a'' ''breach'')])
          (review_of ''b'' ''breach''))) \<and>
   IsRelevant (result (Analyze
          (env_of (Inr \<lparr>ReviewID = [], SentimentScore = - (9 / 10), IsNegative = False,
                        IsRelevant = False, IntentCategory = ''security'', Confidence = 9 / 10,
                        Keywords = [], Entities = [], CategoryScores = Map.empty\<rparr>))
          (Analyze_all (Analyzer_New asciiToLower (config_of ''openai'' ''sk-1''))
             [(env_of (Inr \<lparr>ReviewID = [], SentimentScore = - (9 / 10), IsNegative = False,
                        IsRelevant = False, IntentCategory = ''security'', Confidence = 9 / 10,
                        Keywords = [], Entities = [], CategoryScores = Map.empty\<rparr>),
               review_of ''a'' ''breach'')])
          (review_of ''b'' ''breach'')))"
  using Analyze_flags
    [of "env_of (Inr \<lparr>ReviewID = [], SentimentScore = - (9 / 10), IsNegative = False,
                        IsRelevant = False, IntentCategory = ''security'', Confidence = 9 / 10,
                        Keywords = [], Entities = [], CategoryScores = Map.empty\<rparr>)"
        asciiToLower "config_of ''openai'' ''sk-1''"
        "[(env_of (Inr \<lparr>ReviewID = [], SentimentScore = - (9 / 10), IsNegative = False,
                        IsRelevant = False, IntentCategory = ''security'', Confidence = 9 / 10,
                        Keywords = [], Entities = [], CategoryScores = Map.empty\<rparr>),
               review_of ''a'' ''breach'')]"
        "review_of ''b'' ''breach''"]
  by (simp add: Analyze_def Let_def Analyzer_New_def selectStrategy_def analyzeWithOpenAI_def)

text \<open>
  Claim C4, as amended. When a call of Analyze returns without error, the next call on a
  review of equal content returns the same result, again without error, invokes no strategy,
  and leaves the analyzer as it was.
\<close>

theorem Analyze_second_call:
  assumes "Content review2 = Content review1"
    and "err (Analyze env1 a review1) = None"
  shows "result (Analyze env2 (analyzer (Analyze env1 a review1)) review2) =
           result (Analyze env1 a review1) \<and>
         err (Analyze env2 (analyzer (Analyze env1 a review1)) review2) = None \<and>
         invoked (Analyze env2 (analyzer (Analyze env1 a review1)) review2) = None \<and>
         analyzer (Analyze env2 (analyzer (Analyze env1 a review1)) review2) =
           analyzer (Analyze env1 a review1)"
proof (cases rule: Analyze_cases [of a review1 env1])
  case (hit cachedResult)
  with assms(1) Analyze_hit [of a review2 cachedResult env2] show ?thesis by simp
next
  case (error e)
  with assms(2) show ?thesis by simp
next
  case (fresh result0)
  let ?a1 = "analyzer (Analyze env1 a review1)"
  from fresh have "cache ?a1 (cacheKeyOf (Content review2)) = Some (result (Analyze env1 a review1))"
    by (simp add: assms(1))
  from Analyze_hit [OF this] show ?thesis by simp
qed

text \<open>
  The theorem at the local strategy, on a fresh analyzer: the first call invokes the
  strategy, the second does not and returns the same result.
\<close>

theorem Analyze_second_call_witness:
  "err (Analyze (env_of (Inl ''unused'')) (Analyzer_New asciiToLower (config_of ''local'' []))
          (review_of ''a'' ''crash'')) = None \<and>
   invoked (Analyze (env_of (Inl ''unused'')) (Analyzer_New asciiToLower (config_of ''local'' []))
          (review_of ''a'' ''crash'')) = Some Local \<and>
   invoked (Analyze (env_of (Inl ''unused''))
          (analyzer (Analyze (env_of (Inl ''unused'')) (Analyzer_New asciiToLower (config_of ''local'' []))
                       (review_of ''a'' ''crash'')))
          (review_of ''a'' ''crash'')) = None \<and>
   result (Analyze (env_of (Inl ''unused''))
          (analyzer (Analyze (env_of (Inl ''unused'')) (Analyzer_New asciiToLower (config_of ''local'' []))
                       (review_of ''a'' ''crash'')))
          (review_of ''a'' ''crash'')) =
   result (Analyze (env_of (Inl ''unused'')) (Analyzer_New asciiToLower (config_of ''local'' []))
          (review_of ''a'' ''crash''))"
  using Analyze_second_call
    [of "review_of ''a'' ''crash''" "review_of ''a'' ''crash''" "env_of (Inl ''unused'')"
        "Analyzer_New asciiToLower (config_of ''local'' [])" "env_of (Inl ''unused'')"]
    Analyze_local_fresh
    [of "Analyzer_New asciiToLower (config_of ''local'' [])" "review_of ''a'' ''crash''" "env_of (Inl ''unused'')"]
  by (simp add: Analyzer_New_def selectStrategy_def)

text \<open>
  Claim C4 as stated fails where the strategy fails: with the mode \<open>openai\<close> and no API key,
  the first call returns an error and stores nothing, and the second call on the same review
  invokes the strategy again.
\<close>

theorem Analyze_failed_first_call_counterexample:
  "err (Analyze (env_of (Inl ''unused''))
          (analyzer (Analyze (env_of (Inl ''unused''))
                       (Analyzer_New asciiToLower (config_of ''openai'' [])) (review_of ''a'' ''breach'')))
          (review_of ''a'' ''breach'')) = Some ''OpenAI API key is not configured'' \<and>
   invoked (Analyze (env_of (Inl ''unused''))
          (analyzer (Analyze (env_of (Inl ''unused''))
                       (Analyzer_New asciiToLower (config_of ''openai'' [])) (review_of ''a'' ''breach'')))
          (review_of ''a'' ''breach'')) = Some OpenAI"
  by (simp add: Analyze_def Analyzer_New_def selectStrategy_def analyzeWithOpenAI_def)

text \<open>
  Claim C9, as amended. Take two reviews of equal content and different identifiers, the
  content not being in the cache before, and let the call on the first return without error.
  Then the call on the second invokes no strategy and returns the result of the first call,
  whose \<open>ReviewID\<close> is the identifier of the first review, not that of the second.
\<close>

theorem Analyze_cached_ReviewID:
  assumes "Content review2 = Content review1"
    and "ID review2 \<noteq> ID review1"
    and "cache a (cacheKeyOf (Content review1)) = None"
    and "err (Analyze env1 a review1) = None"
  shows "invoked (Analyze env2 (analyzer (Analyze env1 a review1)) review2) = None \<and>
         result (Analyze env2 (analyzer (Analyze env1 a review1)) review2) =
           result (Analyze env1 a review1) \<and>
         ReviewID (result (Analyze env2 (analyzer (Analyze env1 a review1)) review2)) = ID review1 \<and>
         ReviewID (result (Analyze env2 (analyzer (Analyze env1 a review1)) review2)) \<noteq> ID review2"
proof (cases rule: Analyze_cases [of a review1 env1])
  case (hit cachedResult)
  with assms(3) show ?thesis by simp
next
  case (error e)
  with assms(4) show ?thesis by simp
next
  case (fresh result0)
  let ?a1 = "analyzer (Analyze env1 a review1)"
  from fresh have "cache ?a1 (cacheKeyOf (Content review2)) = Some (result (Analyze env1 a review1))"
    by (simp add: assms(1))
  from Analyze_hit [OF this] fresh assms(2) show ?thesis by simp
qed

text \<open>
  The theorem at the local strategy, on a fresh analyzer, with reviews \<open>a\<close> and \<open>b\<close>.
\<close>

theorem Analyze_cached_ReviewID_witness:
  "err (Analyze (env_of (Inl ''unused'')) (Analyzer_New asciiToLower (config_of ''local'' []))
          (review_of ''a'' ''crash'')) = None \<and>
   ReviewID (result (Analyze (env_of (Inl ''unused''))
          (analyzer (Analyze (env_of (Inl ''unused'')) (Analyzer_New asciiToLower (config_of ''local'' []))
                       (review_of ''a'' ''crash'')))
          (review_of ''b'' ''crash''))) = ''a''"
  using Analyze_cached_ReviewID
    [of "review_of ''b'' ''crash''" "review_of ''a'' ''crash''"
        "Analyzer_New asciiToLower (config_of ''local'' [])" "env_of (Inl ''unused'')" "env_of (Inl ''unused'')"]
    Analyze_local_fresh
    [of "Analyzer_New asciiToLower (config_of ''local'' [])" "review_of ''a'' ''crash''" "env_of (Inl ''unused'')"]
  by (simp add: Analyzer_New_def selectStrategy_def)

text \<open>
  Claim C9 as stated fails in two ways. When a review \<open>a\<close> of the same content was analyzed
  before the two reviews \<open>b\<close> and \<open>c\<close>, the call on \<open>c\<close> returns the result labelled \<open>a\<close>,
  not \<open>b\<close>. And when the strategy fails (here the mode \<open>google\<close>), nothing is cached: the
  call on \<open>c\<close> returns the error and the zero result, whose \<open>ReviewID\<close> is empty.
\<close>

theorem Analyze_earlier_entry_counterexample:
  "ReviewID (result (Analyze (env_of (Inl ''unused''))
     (analyzer (Analyze (env_of (Inl ''unused''))
        (analyzer (Analyze (env_of (Inl ''unused'')) (Analyzer_New asciiToLower (config_of ''local'' []))
                     (review_of ''a'' ''crash'')))
        (review_of ''b'' ''crash'')))
     (review_of ''c'' ''crash''))) = ''a'' \<and>
   err (Analyze (env_of (Inl ''unused''))
     (analyzer (Analyze (env_of (Inl ''unused'')) (Analyzer_New asciiToLower (config_of ''google'' []))
                  (review_of ''b'' ''crash'')))
     (review_of ''c'' ''crash'')) = Some ''Google Cloud analysis not implemented'' \<and>
   ReviewID (result (Analyze (env_of (Inl ''unused''))
     (analyzer (Analyze (env_of (Inl ''unused'')) (Analyzer_New asciiToLower (config_of ''google'' []))
                  (review_of ''b'' ''crash'')))
     (review_of ''c'' ''crash''))) = []"
proof -
  let ?env = "env_of (Inl ''unused'')"
  let ?a0 = "Analyzer_New asciiToLower (config_of ''local'' [])"
  let ?a1 = "analyzer (Analyze ?env ?a0 (review_of ''a'' ''crash''))"
  have first: "cache ?a1 (cacheKeyOf ''crash'') =
                 Some (result (Analyze ?env ?a0 (review_of ''a'' ''crash'')))"
    and rid: "ReviewID (result (Analyze ?env ?a0 (review_of ''a'' ''crash''))) = ''a''"
    using Analyze_local_fresh [of ?a0 "review_of ''a'' ''crash''" ?env]
    by (simp_all add: Analyzer_New_def selectStrategy_def)
  from first have second: "Analyze ?env ?a1 (review_of ''b'' ''crash'') =
      \<lparr>result = result (Analyze ?env ?a0 (review_of ''a'' ''crash'')), err = None,
       invoked = None, analyzer = ?a1\<rparr>"
    using Analyze_hit [of ?a1 "review_of ''b'' ''crash''" _ ?env] by simp
  from first have third: "Analyze ?env ?a1 (review_of ''c'' ''crash'') =
      \<lparr>result = result (Analyze ?env ?a0 (review_of ''a'' ''crash'')), err = None,
       invoked = None, analyzer = ?a1\<rparr>"
    using Analyze_hit [of ?a1 "review_of ''c'' ''crash''" _ ?env] by simp
  have google: "Analyze ?env (Analyzer_New asciiToLower (config_of ''google'' [])) (review_of ''b'' ''crash'') =
      \<lparr>result = AnalysisResult_zero, err = Some ''Google Cloud analysis not implemented'',
       invoked = Some Google, analyzer = Analyzer_New asciiToLower (config_of ''google'' [])\<rparr>"
    by (simp add: Analyze_def Analyzer_New_def selectStrategy_def analyzeWithGoogle_def)
  have google2: "Analyze ?env (Analyzer_New asciiToLower (config_of ''google'' [])) (review_of ''c'' ''crash'') =
      \<lparr>result = AnalysisResult_zero, err = Some ''Google Cloud analysis not implemented'',
       invoked = Some Google, analyzer = Analyzer_New asciiToLower (config_of ''google'' [])\<rparr>"
    by (simp add: Analyze_def Analyzer_New_def selectStrategy_def analyzeWithGoogle_def)
  have a2: "analyzer (Analyze ?env ?a1 (review_of ''b'' ''crash'')) = ?a1"
    by (simp only: second AnalyzeCall.simps)
  have g2: "analyzer (Analyze ?env (Analyzer_New asciiToLower (config_of ''google'' []))
                        (review_of ''b'' ''crash'')) = Analyzer_New asciiToLower (config_of ''google'' [])"
    by (simp only: google AnalyzeCall.simps)
  show ?thesis
    unfolding a2 g2 third google2
    by (simp add: rid AnalysisResult_zero_def)
qed

text \<open>
  Claim C10. When the content of the review is not in the cache and the selected strategy
  returns an error, Analyze returns the zero result with that error and leaves the cache as
  it was, with no entry for the content; a later call on a review of equal content invokes
  the strategy again.
\<close>

theorem Analyze_error_not_cached:
  assumes "cache a (cacheKeyOf (Content review)) = None"
    and "snd (runStrategy (selectStrategy (Mode (config a))) env a review) = Some e"
  shows "result (Analyze env a review) = AnalysisResult_zero \<and>
         err (Analyze env a review) = Some e \<and>
         cache (analyzer (Analyze env a review)) = cache a \<and>
         cache (analyzer (Analyze env a review)) (cacheKeyOf (Content review)) = None \<and>
         (Content review' = Content review \<longrightarrow>
            invoked (Analyze env' (analyzer (Analyze env a review)) review') =
              Some (selectStrategy (Mode (config a))))"
proof -
  note first = Analyze_miss_error [OF assms]
  have "invoked (Analyze env' a review') = Some (selectStrategy (Mode (config a)))"
    if "Content review' = Content review"
  proof (cases rule: Analyze_cases [of a review' env'])
    case (hit cachedResult)
    with that assms(1) show ?thesis by simp
  next
    case (error e)
    then show ?thesis by simp
  next
    case (fresh result0)
    then show ?thesis by simp
  qed
  with first assms(1) show ?thesis by simp
qed

text \<open>
  The theorem at the mode \<open>aws\<close>, whose strategy always fails.
\<close>

theorem Analyze_error_not_cached_witness:
  "snd (runStrategy (selectStrategy (Mode (config (Analyzer_New asciiToLower (config_of ''aws'' [])))))
          (env_of (Inl ''unused'')) (Analyzer_New asciiToLower (config_of ''aws'' [])) (review_of ''a'' ''crash''))
     = Some ''AWS Comprehend analysis not implemented'' \<and>
   result (Analyze (env_of (Inl ''unused'')) (Analyzer_New asciiToLower (config_of ''aws'' []))
             (review_of ''a'' ''crash'')) = AnalysisResult_zero \<and>
   err (Analyze (env_of (Inl ''unused'')) (Analyzer_New asciiToLower (config_of ''aws'' []))
             (review_of ''a'' ''crash'')) = Some ''AWS Comprehend analysis not implemented'' \<and>
   invoked (Analyze (env_of (Inl ''unused''))
             (analyzer (Analyze (env_of (Inl ''unused'')) (Analyzer_New asciiToLower (config_of ''aws'' []))
                          (review_of ''a'' ''crash'')))
             (review_of ''b'' ''crash'')) = Some AWS"
  using Analyze_error_not_cached
    [of "Analyzer_New asciiToLower (config_of ''aws'' [])" "review_of ''a'' ''crash''" "env_of (Inl ''unused'')"
        "''AWS Comprehend analysis not implemented''" "review_of ''b'' ''crash''"
        "env_of (Inl ''unused'')"]
  by (simp add: Analyzer_New_def selectStrategy_def analyzeWithAWS_def)

section \<open>Properties of the local strategy\<close>

subsection \<open>The helper countOccurrences counts the occurrences\<close>
















subsection \<open>Keywords and confidence\<close>

lemma contains_iff: "contains slice s = (s \<in> set slice)"
  by (induction slice) auto

lemma foldl_products_set:
  "set (foldl (\<lambda>keywords product.
                 if Contains content product \<and> \<not> contains keywords product
                 then keywords @ [product] else keywords) init products) =
   set init \<union> {p \<in> set products. Contains content p}"
  by (induction products arbitrary: init) (auto simp: contains_iff)

lemma foldl_products_distinct:
  "distinct init \<Longrightarrow>
   distinct (foldl (\<lambda>keywords product.
                 if Contains content product \<and> \<not> contains keywords product
                 then keywords @ [product] else keywords) init products)"
  by (induction products arbitrary: init) (auto simp: contains_iff)

lemma matchKeywords_set:
  assumes "map_iteration (keywordMap a) (keywordOrder env)"
  shows "set (matchKeywords env a content) =
           {k \<in> dom (keywordMap a) \<union> set infobloxProducts. Contains content k}"
  using assms
  by (auto simp: matchKeywords_def foldl_products_set map_iteration_def)

lemma matchKeywords_distinct:
  assumes "map_iteration (keywordMap a) (keywordOrder env)"
  shows "distinct (matchKeywords env a content)"
  using assms
  by (simp add: matchKeywords_def foldl_products_distinct map_iteration_def)

lemma analyzeLocal_Keywords:
  "Keywords (fst (analyzeLocal env a review)) =
     matchKeywords env a (ToLower env (Content review))"
  by (simp add: analyzeLocal_def Let_def)

lemma analyzeLocal_Confidence:
  "Confidence (fst (analyzeLocal env a review)) =
     confidenceOf (matchKeywords env a (ToLower env (Content review)))"
  by (simp add: analyzeLocal_def Let_def)

lemma confidenceOf_clamp:
  "confidenceOf keywords =
     (if length keywords = 0 then 1 / 2
      else max (3 / 10) (min 1 (real (length keywords) / 10)))"
  by (simp add: confidenceOf_def max_def min_def)

text \<open>
  Claim C8. The confidence that the local strategy returns is a function of the number of
  keywords it returns: one half for none, and otherwise a tenth of the number, raised to
  0.3 and lowered to 1 where it lies outside; so it always lies between 0.3 and 1. When the
  keys of \<open>keywordMap\<close> are visited each once, the keywords are distinct, and they are the
  configured keywords and product names that occur in the content as \<open>strings.ToLower\<close>
  returns it, whatever that function is.
\<close>

theorem analyzeLocal_confidence:
  "Confidence (fst (analyzeLocal env a review)) =
     (if length (Keywords (fst (analyzeLocal env a review))) = 0 then 1 / 2
      else max (3 / 10) (min 1 (real (length (Keywords (fst (analyzeLocal env a review)))) / 10))) \<and>
   3 / 10 \<le> Confidence (fst (analyzeLocal env a review)) \<and>
   Confidence (fst (analyzeLocal env a review)) \<le> 1 \<and>
   (map_iteration (keywordMap a) (keywordOrder env) \<longrightarrow>
      distinct (Keywords (fst (analyzeLocal env a review))) \<and>
      set (Keywords (fst (analyzeLocal env a review))) =
        {k \<in> dom (keywordMap a) \<union> set infobloxProducts.
           Contains (ToLower env (Content review)) k})"
proof -
  have eq: "Confidence (fst (analyzeLocal env a review)) =
     (if length (Keywords (fst (analyzeLocal env a review))) = 0 then 1 / 2
      else max (3 / 10) (min 1 (real (length (Keywords (fst (analyzeLocal env a review)))) / 10)))"
    by (simp only: analyzeLocal_Confidence analyzeLocal_Keywords confidenceOf_clamp)
  then have "3 / 10 \<le> Confidence (fst (analyzeLocal env a review))"
    and "Confidence (fst (analyzeLocal env a review)) \<le> 1"
    by (simp_all add: max_def min_def)
  with eq show ?thesis
    by (simp add: analyzeLocal_Keywords matchKeywords_distinct matchKeywords_set)
qed

text \<open>
  The theorem at a review in which both configured keywords occur: two keywords, and the
  confidence 0.3.
\<close>

theorem analyzeLocal_confidence_witness:
  "map_iteration (keywordMap (Analyzer_New asciiToLower (config_of ''local'' [])))
     (keywordOrder (env_of (Inl ''unused''))) \<and>
   Keywords (fst (analyzeLocal (env_of (Inl ''unused''))
     (Analyzer_New asciiToLower (config_of ''local'' []))
     (review_of ''a'' ''DNS crash''))) = [''crash'', ''dns''] \<and>
   Confidence (fst (analyzeLocal (env_of (Inl ''unused''))
     (Analyzer_New asciiToLower (config_of ''local'' []))
     (review_of ''a'' ''DNS crash''))) = 3 / 10"
proof -
  have lower: "asciiToLower ''DNS'' = ''dns''" "asciiToLower ''crash'' = ''crash''"
    by code_simp+
  have order: "map_iteration (keywordMap (Analyzer_New asciiToLower (config_of ''local'' [])))
     (keywordOrder (env_of (Inl ''unused'')))"
    by (auto simp: map_iteration_def Analyzer_New_def lower)
  have kws: "Keywords (fst (analyzeLocal (env_of (Inl ''unused''))
     (Analyzer_New asciiToLower (config_of ''local'' []))
     (review_of ''a'' ''DNS crash''))) = [''crash'', ''dns'']"
    unfolding analyzeLocal_Keywords by code_simp
  from order kws show ?thesis
    using analyzeLocal_confidence
      [of "env_of (Inl ''unused'')" "Analyzer_New asciiToLower (config_of ''local'' [])"
          "review_of ''a'' ''DNS crash''"]
    by simp
qed

end
